theory Spec2Isabelle
  imports Main "HOL-Library.Word"
begin

section \<open>The Slang toolchain as seen from the adapter\<close>

text \<open>
  The adapter in \<^verbatim>\<open>src/render/shader/compiler/compiler.cpp\<close> is glue over the Slang
  library. The library and the file system are the environment of the model: every
  call that leaves the adapter is answered by an oracle of the record \<open>toolchain\<close>.
  An oracle sees the log of all calls made so far, so two calls with the same arguments
  may be answered differently (the file may have changed, the session caches modules).
  Each call site of the source appends one event, with the arguments passed and the
  answer received, to the log.

  A COM object is a handle; a \<^verbatim>\<open>ComPtr\<close> is a handle option, \<open>None\<close> the null pointer.
  An \<^verbatim>\<open>IBlob\<close> is typed by how the source reads it: a diagnostics blob, read with
  \<^verbatim>\<open>std::string(ptr, size)\<close>, is a string; the code blob, read as raw memory, is a list
  of bytes.
\<close>

type_synonym handle = nat
type_synonym SlangResult = int
type_synonym byte = "8 word"

text \<open>The enumerators of \<^verbatim>\<open>slang.h\<close> that the source names; the others are numbered.\<close>

datatype SlangStage =
    SLANG_STAGE_VERTEX
  | SLANG_STAGE_FRAGMENT
  | SLANG_STAGE_COMPUTE
  | SLANG_STAGE_GEOMETRY
  | SLANG_STAGE_HULL
  | SLANG_STAGE_DOMAIN
  | SLANG_STAGE_other nat

datatype SlangCompileTarget = SLANG_SPIRV | SLANG_TARGET_other nat

record TargetDesc =
  format :: SlangCompileTarget
  profile :: nat

record SessionDesc =
  targets :: "TargetDesc list"
  targetCount :: nat

text \<open>
  The application in \<^verbatim>\<open>src/main.cpp\<close> computes its matrices in floating point with
  the library glm. The model does not evaluate them: a floating-point value is the
  expression that computes it, so two values are equal when they are computed by the
  same operations from the same inputs. A \<^verbatim>\<open>double\<close> handed over by the environment is
  its 64 bits.
\<close>

datatype float_expr =
    float_literal string
  | float_of_int int
  | float_of_double "64 word"
  | float_div float_expr float_expr

datatype vec3 = glm_vec3 float_expr float_expr float_expr

datatype mat4 =
    glm_mat4 float_expr
  | glm_translate mat4 vec3
  | glm_rotate mat4 float_expr vec3
  | glm_perspective float_expr float_expr float_expr float_expr
  | mat4_times mat4 mat4

text \<open>
  The descriptors the application passes to the graphics library. A field the source
  leaves out of a designated initializer is \<open>None\<close>: its value is the library's default.
\<close>

datatype ShaderStage = Stage_Vert | Stage_Frag
datatype CullMode = CullMode_Back
datatype PolygonMode = PolygonMode_Line

record ShaderModuleDesc =
  sm_data :: "32 word list"
  sm_dataSize :: nat
  sm_stage :: ShaderStage
  sm_debugName :: string

record SpecializationConstantEntry =
  constantId :: nat
  entry_size :: nat

record SpecializationConstantDesc =
  entries :: "SpecializationConstantEntry list"
  spec_data :: bool
  spec_dataSize :: nat

record RenderPipelineDesc =
  smVert :: "handle option"
  smFrag :: "handle option"
  specInfo :: "SpecializationConstantDesc option"
  color :: "nat list"
  cullMode :: CullMode
  polygonMode :: "PolygonMode option"

datatype event =
    CreateGlobalSession SlangResult "handle option"
  | FindProfile handle string nat
  | CreateSession handle SessionDesc SlangResult "handle option"
  | OpenFile string bool
  | ReadFile string string
  | LoadModule handle string "handle option" "string option"
  | FindAndCheckEntryPoint handle string SlangStage "handle option" "string option"
  | CreateCompositeComponentType handle "handle list" SlangResult "handle option" "string option"
  | Link handle SlangResult "handle option" "string option"
  | PrintReflection handle string
  | GetEntryPointCode handle nat nat SlangResult "byte list option" "string option"
  | InitWindow string int int "handle option" int int
  | CreateVulkanContextWithSwapchain "handle option" int int "handle option"
  | LogW string
  | CreateShaderModule handle ShaderModuleDesc "handle option"
  | GetSwapchainFormat handle nat
  | CreateRenderPipeline handle RenderPipelineDesc "handle option"
  | GlfwWindowShouldClose "handle option" bool
  | GlfwPollEvents
  | GlfwGetFramebufferSize "handle option" int int
  | GlfwGetTime "64 word"
  | AcquireCommandBuffer handle handle
  | GetCurrentSwapchainTexture handle nat
  | CmdBeginRendering handle nat
  | CmdPushDebugGroupLabel handle string "32 word"
  | CmdBindRenderPipeline handle "handle option"
  | CmdPushConstants handle mat4
  | CmdDraw handle "32 word"
  | CmdPopDebugGroupLabel handle
  | CmdEndRendering handle
  | Submit handle handle nat

text \<open>
  \<open>SLANG_FAILED\<close> is the macro of \<^verbatim>\<open>slang.h\<close>, which is not part of the repository:
  it is a parameter. \<open>file_is_open\<close> and \<open>file_rdbuf\<close> are the \<^verbatim>\<open>std::ifstream\<close> of
  lines 109 to 118; the other fields are the member functions of the Slang objects, the
  receiver first.
\<close>

record toolchain =
  SLANG_FAILED :: "SlangResult \<Rightarrow> bool"
  createGlobalSession :: "event list \<Rightarrow> SlangResult \<times> handle option"
  findProfile :: "event list \<Rightarrow> handle \<Rightarrow> string \<Rightarrow> nat"
  createSession :: "event list \<Rightarrow> handle \<Rightarrow> SessionDesc \<Rightarrow> SlangResult \<times> handle option"
  file_is_open :: "event list \<Rightarrow> string \<Rightarrow> bool"
  file_rdbuf :: "event list \<Rightarrow> string \<Rightarrow> string"
  loadModule :: "event list \<Rightarrow> handle \<Rightarrow> string \<Rightarrow> handle option \<times> string option"
  findAndCheckEntryPoint ::
    "event list \<Rightarrow> handle \<Rightarrow> string \<Rightarrow> SlangStage \<Rightarrow> handle option \<times> string option"
  createCompositeComponentType ::
    "event list \<Rightarrow> handle \<Rightarrow> handle list \<Rightarrow> SlangResult \<times> handle option \<times> string option"
  link :: "event list \<Rightarrow> handle \<Rightarrow> SlangResult \<times> handle option \<times> string option"
  getEntryPointCode ::
    "event list \<Rightarrow> handle \<Rightarrow> nat \<Rightarrow> nat \<Rightarrow> SlangResult \<times> byte list option \<times> string option"


text \<open>
  A member call through a null \<^verbatim>\<open>ComPtr\<close> does not return: the source checks the
  result code of \<^verbatim>\<open>createGlobalSession\<close>, \<^verbatim>\<open>createSession\<close>,
  \<^verbatim>\<open>createCompositeComponentType\<close> and \<^verbatim>\<open>link\<close>, not the pointer written.
\<close>

datatype 'a outcome = Returns 'a | NullDereference

section \<open>The class \<open>SlangCompiler\<close>\<close>

record SlangCompiler =
  globalSession :: "handle option"
  session :: "handle option"
  initialized :: bool
  lastDiagnostics :: string

definition SlangCompiler_new :: SlangCompiler where
  "SlangCompiler_new =
     \<lparr>globalSession = None, session = None, initialized = False, lastDiagnostics = []\<rparr>"

definition isInitialized :: "SlangCompiler \<Rightarrow> bool" where
  "isInitialized this = initialized this"

definition getLastDiagnostics :: "SlangCompiler \<Rightarrow> string" where
  "getLastDiagnostics this = lastDiagnostics this"

definition newline :: string where
  "newline = [CHR 0x0A]"

text \<open>
  \<^verbatim>\<open>std::string::c_str()\<close> read as a C string, by \<^verbatim>\<open>const char*\<close> parameters and by
  \<^verbatim>\<open>%s\<close>: the characters before the first zero byte.
\<close>

definition c_str :: "string \<Rightarrow> string" where
  "c_str s = takeWhile (\<lambda>c. c \<noteq> CHR 0x00) s"

text \<open>
  \<^verbatim>\<open>initialize\<close>, lines 17 to 53. \<^verbatim>\<open>writeRef()\<close> hands the callee the address of the
  pointer, so the member holds what the callee wrote, also when the call failed.
\<close>

definition initialize ::
  "toolchain \<Rightarrow> SlangCompileTarget \<Rightarrow> SlangCompiler \<Rightarrow> event list
     \<Rightarrow> (bool \<times> SlangCompiler \<times> event list) outcome" where
  "initialize tc target this log =
     (if initialized this then Returns (True, this, log)
      else
        let (result, gs) = createGlobalSession tc log;
            log = log @ [CreateGlobalSession result gs];
            this = this\<lparr>globalSession := gs\<rparr>
        in
        if SLANG_FAILED tc result
        then Returns (False, this\<lparr>lastDiagnostics := ''Failed to create Slang global session''\<rparr>, log)
        else
          (case globalSession this of
            None \<Rightarrow> NullDereference
          | Some g \<Rightarrow>
              let p = findProfile tc log g ''spirv_1_5'';
                  log = log @ [FindProfile g ''spirv_1_5'' p];
                  targetDesc = \<lparr>format = target, profile = p\<rparr>;
                  sessionDesc = \<lparr>targets = [targetDesc], targetCount = 1\<rparr>;
                  (result, s) = createSession tc log g sessionDesc;
                  log = log @ [CreateSession g sessionDesc result s];
                  this = this\<lparr>session := s\<rparr>
              in
              if SLANG_FAILED tc result
              then Returns (False, this\<lparr>lastDiagnostics := ''Failed to create Slang session''\<rparr>, log)
              else Returns (True, this\<lparr>initialized := True\<rparr>, log)))"

text \<open>
  The copy of lines 294 to 305: \<^verbatim>\<open>resize(spirvSize / 4)\<close> then \<^verbatim>\<open>memcpy\<close> of
  \<^verbatim>\<open>spirvSize\<close> bytes. Four consecutive bytes make one word, the first byte the least
  significant (the byte order of the targets the application builds for);
  \<open>bytes_of_words\<close> reads the vector's memory back.
\<close>

definition word_of_bytes :: "byte \<Rightarrow> byte \<Rightarrow> byte \<Rightarrow> byte \<Rightarrow> 32 word" where
  "word_of_bytes a b c d =
     or (ucast a) (or (push_bit 8 (ucast b)) (or (push_bit 16 (ucast c)) (push_bit 24 (ucast d))))"

fun words_of_bytes :: "byte list \<Rightarrow> 32 word list" where
  "words_of_bytes (a # b # c # d # rest) = word_of_bytes a b c d # words_of_bytes rest"
| "words_of_bytes _ = []"

definition bytes_of_word :: "32 word \<Rightarrow> byte list" where
  "bytes_of_word w = [ucast w, ucast (drop_bit 8 w), ucast (drop_bit 16 w), ucast (drop_bit 24 w)]"

definition bytes_of_words :: "32 word list \<Rightarrow> byte list" where
  "bytes_of_words ws = concat (map bytes_of_word ws)"

text \<open>
  The two ways the source captures a diagnostics blob. Lines 127 to 133 and 146 to 152
  assign the text to \<^verbatim>\<open>lastDiagnostics\<close> when the blob is not null; lines 176 to 183,
  198 to 205 and 278 to 285 append it.
\<close>

definition assign_diagnostics :: "string option \<Rightarrow> SlangCompiler \<Rightarrow> SlangCompiler" where
  "assign_diagnostics diagnosticsBlob this =
     (case diagnosticsBlob of
        None \<Rightarrow> this
      | Some d \<Rightarrow> this\<lparr>lastDiagnostics := d\<rparr>)"

definition append_diagnostics :: "string option \<Rightarrow> SlangCompiler \<Rightarrow> SlangCompiler" where
  "append_diagnostics diagnostics this =
     (case diagnostics of
        None \<Rightarrow> this
      | Some diag \<Rightarrow> this\<lparr>lastDiagnostics := lastDiagnostics this @ diag\<rparr>)"

text \<open>
  \<^verbatim>\<open>compileEntryPoint\<close>, lines 98 to 308. The block of lines 214 to 265 asks the
  linked program for its layout and, when there is one, prints its entry points and
  parameters to standard output; it assigns nothing that the function returns or keeps,
  and is the single event \<open>PrintReflection\<close> of the log. The text read at lines 116 to
  118 is never used.
\<close>

definition compileEntryPoint ::
  "toolchain \<Rightarrow> string \<Rightarrow> string \<Rightarrow> SlangStage \<Rightarrow> 32 word list \<Rightarrow> string \<Rightarrow> SlangCompiler
     \<Rightarrow> event list \<Rightarrow> (bool \<times> 32 word list \<times> string \<times> SlangCompiler \<times> event list) outcome" where
  "compileEntryPoint tc shaderPath entryPoint stage outSpirv outErrorMsg this log =
     (let this = this\<lparr>lastDiagnostics := []\<rparr>;
          is_open = file_is_open tc log shaderPath;
          log = log @ [OpenFile shaderPath is_open]
      in
      if \<not> is_open
      then Returns (False, outSpirv, ''Failed to open shader file: '' @ shaderPath, this, log)
      else
        let shaderCode = file_rdbuf tc log shaderPath;
            log = log @ [ReadFile shaderPath shaderCode]
        in
        (case session this of
          None \<Rightarrow> NullDereference
        | Some s \<Rightarrow>
        let (module, diagnosticsBlob) = loadModule tc log s (c_str shaderPath);
            log = log @ [LoadModule s (c_str shaderPath) module diagnosticsBlob];
            this = assign_diagnostics diagnosticsBlob this
        in
        (case module of
          None \<Rightarrow>
            Returns (False, outSpirv,
              ''Failed to load module: '' @ shaderPath @ newline @ lastDiagnostics this, this, log)
        | Some m \<Rightarrow>
        let (entryPointObj, diagnosticsBlob) =
               findAndCheckEntryPoint tc log m (c_str entryPoint) stage;
            log = log @ [FindAndCheckEntryPoint m (c_str entryPoint) stage entryPointObj
                           diagnosticsBlob];
            this = assign_diagnostics diagnosticsBlob this
        in
        (case entryPointObj of
          None \<Rightarrow>
            Returns (False, outSpirv,
              ''Failed to find entry point: '' @ entryPoint @ '' in '' @ shaderPath @ newline
                @ lastDiagnostics this, this, log)
        | Some ep \<Rightarrow>
        let componentTypes = [m, ep];
            (result, composedProgram, composeDiagnostics) =
               createCompositeComponentType tc log s componentTypes;
            log = log @ [CreateCompositeComponentType s componentTypes result composedProgram
                           composeDiagnostics];
            this = append_diagnostics composeDiagnostics this
        in
        if SLANG_FAILED tc result
        then Returns (False, outSpirv,
               ''Failed to compose program'' @ newline @ lastDiagnostics this, this, log)
        else
        (case composedProgram of
          None \<Rightarrow> NullDereference
        | Some cp \<Rightarrow>
        let (result, linkedProgram, linkDiagnostics) = link tc log cp;
            log = log @ [Link cp result linkedProgram linkDiagnostics];
            this = append_diagnostics linkDiagnostics this
        in
        if SLANG_FAILED tc result
        then Returns (False, outSpirv,
               ''Failed to link program'' @ newline @ lastDiagnostics this, this, log)
        else
        (case linkedProgram of
          None \<Rightarrow> NullDereference
        | Some lp \<Rightarrow>
        let log = log @ [PrintReflection lp entryPoint];
            (result, spirvCode, getDiagnostics) = getEntryPointCode tc log lp 0 0;
            log = log @ [GetEntryPointCode lp 0 0 result spirvCode getDiagnostics];
            this = append_diagnostics getDiagnostics this
        in
        let failure = Returns (False, outSpirv,
              ''Failed to get compiled code'' @ newline @ lastDiagnostics this, this, log)
        in
        if SLANG_FAILED tc result then failure
        else
        (case spirvCode of
          None \<Rightarrow> failure
        | Some spirvData \<Rightarrow>
        let spirvSize = length spirvData in
        if spirvSize mod 4 \<noteq> 0
        then Returns (False, outSpirv, ''Invalid SPIRV size (not multiple of 4 bytes)'', this, log)
        else Returns (True, words_of_bytes spirvData, outErrorMsg, this, log))))))))"

text \<open>\<^verbatim>\<open>compileToSPIRV\<close>, lines 55 to 70.\<close>

definition compileToSPIRV ::
  "toolchain \<Rightarrow> string \<Rightarrow> string \<Rightarrow> SlangStage \<Rightarrow> 32 word list \<Rightarrow> string \<Rightarrow> SlangCompiler
     \<Rightarrow> event list \<Rightarrow> (bool \<times> 32 word list \<times> string \<times> SlangCompiler \<times> event list) outcome" where
  "compileToSPIRV tc shaderPath entryPoint stage outSpirv outErrorMsg this log =
     (if \<not> initialized this
      then Returns (False, outSpirv, ''Compiler not initialized'', this, log)
      else compileEntryPoint tc shaderPath entryPoint stage outSpirv outErrorMsg this log)"

text \<open>
  \<^verbatim>\<open>compileVertexFragment\<close>, lines 72 to 96. The result lists the vertex buffer, the
  fragment buffer and the error message, in the order of the parameters.
\<close>

definition compileVertexFragment ::
  "toolchain \<Rightarrow> string \<Rightarrow> string \<Rightarrow> string \<Rightarrow> 32 word list \<Rightarrow> 32 word list \<Rightarrow> string
     \<Rightarrow> SlangCompiler \<Rightarrow> event list
     \<Rightarrow> (bool \<times> 32 word list \<times> 32 word list \<times> string \<times> SlangCompiler \<times> event list) outcome" where
  "compileVertexFragment tc shaderPath vertexEntry fragmentEntry outVertexSpirv outFragmentSpirv
       outErrorMsg this log =
     (if \<not> initialized this
      then Returns (False, outVertexSpirv, outFragmentSpirv, ''Compiler not initialized'', this, log)
      else
        (case compileEntryPoint tc shaderPath vertexEntry SLANG_STAGE_VERTEX outVertexSpirv
               outErrorMsg this log of
          NullDereference \<Rightarrow> NullDereference
        | Returns (ok, outVertexSpirv, outErrorMsg, this, log) \<Rightarrow>
            if \<not> ok
            then Returns (False, outVertexSpirv, outFragmentSpirv, outErrorMsg, this, log)
            else
              (case compileEntryPoint tc shaderPath fragmentEntry SLANG_STAGE_FRAGMENT
                     outFragmentSpirv outErrorMsg this log of
                NullDereference \<Rightarrow> NullDereference
              | Returns (ok, outFragmentSpirv, outErrorMsg, this, log) \<Rightarrow>
                  if \<not> ok
                  then Returns (False, outVertexSpirv, outFragmentSpirv, outErrorMsg, this, log)
                  else Returns (True, outVertexSpirv, outFragmentSpirv, outErrorMsg, this, log))))"

section \<open>The application \<open>WindowApp\<close>\<close>








section \<open>Vocabulary of the properties\<close>

text \<open>The text of a diagnostics blob, empty for the null blob.\<close>

definition blob_text :: "string option \<Rightarrow> string" where
  "blob_text d = (case d of None \<Rightarrow> [] | Some t \<Rightarrow> t)"

text \<open>The diagnostics text that a toolchain step produced.\<close>

fun event_diagnostics :: "event \<Rightarrow> string" where
  "event_diagnostics (LoadModule s p m d) = blob_text d"
| "event_diagnostics (FindAndCheckEntryPoint m n sg ep d) = blob_text d"
| "event_diagnostics (CreateCompositeComponentType s cs r cp d) = blob_text d"
| "event_diagnostics (Link cp r lp d) = blob_text d"
| "event_diagnostics (GetEntryPointCode lp i j r blob d) = blob_text d"
| "event_diagnostics _ = []"


text \<open>
  \<open>names_failing_step tc p e st diag msg ev\<close>: the event \<open>ev\<close> is a step of the
  compilation of entry point \<open>e\<close> of file \<open>p\<close> for stage \<open>st\<close> that failed, and \<open>msg\<close>
  is the message the source writes for that step when the diagnostics string is \<open>diag\<close>.
\<close>

fun names_failing_step ::
  "toolchain \<Rightarrow> string \<Rightarrow> string \<Rightarrow> SlangStage \<Rightarrow> string \<Rightarrow> string \<Rightarrow> event \<Rightarrow> bool" where
  "names_failing_step tc p e st diag msg (OpenFile q ok) =
     (q = p \<and> \<not> ok \<and> msg = ''Failed to open shader file: '' @ p)"
| "names_failing_step tc p e st diag msg (LoadModule s q m d) =
     (q = c_str p \<and> m = None \<and> msg = ''Failed to load module: '' @ p @ newline @ diag)"
| "names_failing_step tc p e st diag msg (FindAndCheckEntryPoint m n sg ep d) =
     (n = c_str e \<and> sg = st \<and> ep = None \<and>
      msg = ''Failed to find entry point: '' @ e @ '' in '' @ p @ newline @ diag)"
| "names_failing_step tc p e st diag msg (CreateCompositeComponentType s cs r cp d) =
     (SLANG_FAILED tc r \<and> msg = ''Failed to compose program'' @ newline @ diag)"
| "names_failing_step tc p e st diag msg (Link cp r lp d) =
     (SLANG_FAILED tc r \<and> msg = ''Failed to link program'' @ newline @ diag)"
| "names_failing_step tc p e st diag msg (GetEntryPointCode lp i j r blob d) =
     (case (if SLANG_FAILED tc r then None else blob) of
        None \<Rightarrow> msg = ''Failed to get compiled code'' @ newline @ diag
      | Some b \<Rightarrow> length b mod 4 \<noteq> 0 \<and> msg = ''Invalid SPIRV size (not multiple of 4 bytes)'')"
| "names_failing_step tc p e st diag msg _ = False"


section \<open>Sample environments\<close>

text \<open>
  A toolchain in which every call succeeds without diagnostics and the code blob has four
  bytes, and the compiler object that \<open>initialize\<close> leaves behind in it.
\<close>

definition example_toolchain :: toolchain where
  "example_toolchain =
     \<lparr>SLANG_FAILED = (\<lambda>r. r < 0),
      createGlobalSession = (\<lambda>log. (0, Some 1)),
      findProfile = (\<lambda>log g name. 7),
      createSession = (\<lambda>log g desc. (0, Some 2)),
      file_is_open = (\<lambda>log path. True),
      file_rdbuf = (\<lambda>log path. ''shader text''),
      loadModule = (\<lambda>log s path. (Some 3, None)),
      findAndCheckEntryPoint = (\<lambda>log m name stage. (Some 4, None)),
      createCompositeComponentType = (\<lambda>log s components. (0, Some 5, None)),
      link = (\<lambda>log cp. (0, Some 6, None)),
      getEntryPointCode = (\<lambda>log lp i j. (0, Some [3, 2, 35, 7], None))\<rparr>"

definition example_compiler :: SlangCompiler where
  "example_compiler =
     \<lparr>globalSession = Some 1, session = Some 2, initialized = True, lastDiagnostics = []\<rparr>"

text \<open>Variations: the file does not open; no entry point is found; diagnostics are produced
  at some steps; the code blob has three bytes.\<close>

definition toolchain_without_file :: toolchain where
  "toolchain_without_file = example_toolchain\<lparr>file_is_open := (\<lambda>log path. False)\<rparr>"

definition toolchain_without_entry :: toolchain where
  "toolchain_without_entry =
     example_toolchain\<lparr>findAndCheckEntryPoint :=
       (\<lambda>log m name stage. (None, Some ''error: entry point not found''))\<rparr>"

definition toolchain_vertex_warning :: toolchain where
  "toolchain_vertex_warning =
     example_toolchain\<lparr>findAndCheckEntryPoint :=
       (\<lambda>log m name stage.
          if stage = SLANG_STAGE_VERTEX then (Some 4, Some ''warning: unused parameter'')
          else (Some 4, None))\<rparr>"

definition toolchain_two_warnings :: toolchain where
  "toolchain_two_warnings =
     example_toolchain\<lparr>
       loadModule := (\<lambda>log s path. (Some 3, Some ''warning A; '')),
       findAndCheckEntryPoint := (\<lambda>log m name stage. (Some 4, Some ''warning B; ''))\<rparr>"

definition toolchain_load_link_warnings :: toolchain where
  "toolchain_load_link_warnings =
     example_toolchain\<lparr>
       loadModule := (\<lambda>log s path. (Some 3, Some ''warning A; '')),
       link := (\<lambda>log cp. (0, Some 6, Some ''warning C; ''))\<rparr>"

definition toolchain_odd_blob :: toolchain where
  "toolchain_odd_blob =
     example_toolchain\<lparr>getEntryPointCode := (\<lambda>log lp i j. (0, Some [3, 2, 35], None))\<rparr>"



definition example_log :: "string \<Rightarrow> string \<Rightarrow> SlangStage \<Rightarrow> event list" where
  "example_log p e st =
     [OpenFile p True, ReadFile p ''shader text'', LoadModule 2 p (Some 3) None,
      FindAndCheckEntryPoint 3 e st (Some 4) None,
      CreateCompositeComponentType 2 [3, 4] 0 (Some 5) None,
      Link 5 0 (Some 6) None, PrintReflection 6 e,
      GetEntryPointCode 6 0 0 0 (Some [3, 2, 35, 7]) None]"

definition toolchain_without_session :: toolchain where
  "toolchain_without_session =
     example_toolchain\<lparr>createSession := (\<lambda>log g desc. (- 1, None))\<rparr>"





text \<open>
  The log of both stages when the lookup of the vertex entry point produces a warning.
\<close>

definition vertex_warning_log :: "event list" where
  "vertex_warning_log =
     [OpenFile ''cube.slang'' True, ReadFile ''cube.slang'' ''shader text'',
      LoadModule 2 ''cube.slang'' (Some 3) None,
      FindAndCheckEntryPoint 3 ''cubeVertex'' SLANG_STAGE_VERTEX (Some 4)
        (Some ''warning: unused parameter''),
      CreateCompositeComponentType 2 [3, 4] 0 (Some 5) None,
      Link 5 0 (Some 6) None, PrintReflection 6 ''cubeVertex'',
      GetEntryPointCode 6 0 0 0 (Some [3, 2, 35, 7]) None]
     @ example_log ''cube.slang'' ''cubeFragment'' SLANG_STAGE_FRAGMENT"




section \<open>Properties of the compiler object\<close>

subsection \<open>The flag \<open>initialized\<close>\<close>

lemma SlangCompiler_new_not_initialized: "\<not> isInitialized SlangCompiler_new"
  by (simp add: isInitialized_def SlangCompiler_new_def)

lemma initialize_Returns_True:
  "initialize tc target this log = Returns (True, this', log') \<Longrightarrow> isInitialized this'"
  by (auto simp: initialize_def isInitialized_def Let_def
           split: if_splits prod.splits option.splits)

lemma initialize_Returns_False:
  "initialize tc target this log = Returns (False, this', log') \<Longrightarrow> \<not> isInitialized this'"
  by (auto simp: initialize_def isInitialized_def Let_def
           split: if_splits prod.splits option.splits)

lemma assign_diagnostics_fields [simp]:
  "initialized (assign_diagnostics b this) = initialized this"
  "session (assign_diagnostics b this) = session this"
  "globalSession (assign_diagnostics b this) = globalSession this"
  by (simp_all add: assign_diagnostics_def split: option.splits)

lemma append_diagnostics_fields [simp]:
  "initialized (append_diagnostics b this) = initialized this"
  "session (append_diagnostics b this) = session this"
  "globalSession (append_diagnostics b this) = globalSession this"
  by (simp_all add: append_diagnostics_def split: option.splits)

lemma lastDiagnostics_append_diagnostics [simp]:
  "lastDiagnostics (append_diagnostics d c) = lastDiagnostics c @ blob_text d"
  by (simp add: append_diagnostics_def blob_text_def split: option.splits)

lemma lastDiagnostics_assign_diagnostics [simp]:
  "lastDiagnostics (assign_diagnostics d c) = (if d = None then lastDiagnostics c else blob_text d)"
  by (simp add: assign_diagnostics_def blob_text_def split: option.splits)

subsection \<open>The return paths of \<open>compileEntryPoint\<close>\<close>

text \<open>
  Every returning run of \<open>compileEntryPoint\<close> is one of eight: the file does not open,
  one of the five toolchain steps fails, the size check fails, or the code is copied.
\<close>

lemma compileEntryPoint_Returns:
  assumes "compileEntryPoint tc p e st out msg this log = Returns (r, out', msg', this', log')"
  obtains
    (open_failed)
      "r = False" "out' = out" "msg' = ''Failed to open shader file: '' @ p"
      "this' = this\<lparr>lastDiagnostics := []\<rparr>"
      "log' = log @ [OpenFile p False]"
  | (load_failed) src s d1 where
      "r = False" "out' = out"
      "msg' = ''Failed to load module: '' @ p @ newline @ lastDiagnostics this'"
      "this' = assign_diagnostics d1 (this\<lparr>lastDiagnostics := []\<rparr>)"
      "session this = Some s"
      "log' = log @ [OpenFile p True, ReadFile p src, LoadModule s (c_str p) None d1]"
  | (entry_failed) src s m d1 d2 where
      "r = False" "out' = out"
      "msg' = ''Failed to find entry point: '' @ e @ '' in '' @ p @ newline @ lastDiagnostics this'"
      "this' = assign_diagnostics d2 (assign_diagnostics d1 (this\<lparr>lastDiagnostics := []\<rparr>))"
      "session this = Some s"
      "log' = log @ [OpenFile p True, ReadFile p src, LoadModule s (c_str p) (Some m) d1,
                     FindAndCheckEntryPoint m (c_str e) st None d2]"
  | (compose_failed) src s m d1 ep d2 r3 cp d3 where
      "r = False" "out' = out"
      "msg' = ''Failed to compose program'' @ newline @ lastDiagnostics this'"
      "this' = append_diagnostics d3 (assign_diagnostics d2 (assign_diagnostics d1
                 (this\<lparr>lastDiagnostics := []\<rparr>)))"
      "session this = Some s" "SLANG_FAILED tc r3"
      "log' = log @ [OpenFile p True, ReadFile p src, LoadModule s (c_str p) (Some m) d1,
                     FindAndCheckEntryPoint m (c_str e) st (Some ep) d2,
                     CreateCompositeComponentType s [m, ep] r3 cp d3]"
  | (link_failed) src s m d1 ep d2 r3 cp d3 r4 lp d4 where
      "r = False" "out' = out"
      "msg' = ''Failed to link program'' @ newline @ lastDiagnostics this'"
      "this' = append_diagnostics d4 (append_diagnostics d3 (assign_diagnostics d2
                 (assign_diagnostics d1 (this\<lparr>lastDiagnostics := []\<rparr>))))"
      "session this = Some s" "\<not> SLANG_FAILED tc r3" "SLANG_FAILED tc r4"
      "log' = log @ [OpenFile p True, ReadFile p src, LoadModule s (c_str p) (Some m) d1,
                     FindAndCheckEntryPoint m (c_str e) st (Some ep) d2,
                     CreateCompositeComponentType s [m, ep] r3 (Some cp) d3,
                     Link cp r4 lp d4]"
  | (code_failed) src s m d1 ep d2 r3 cp d3 r4 lp d4 r5 blob d5 where
      "r = False" "out' = out"
      "msg' = ''Failed to get compiled code'' @ newline @ lastDiagnostics this'"
      "this' = append_diagnostics d5 (append_diagnostics d4 (append_diagnostics d3
                 (assign_diagnostics d2 (assign_diagnostics d1 (this\<lparr>lastDiagnostics := []\<rparr>)))))"
      "session this = Some s" "\<not> SLANG_FAILED tc r3" "\<not> SLANG_FAILED tc r4"
      "SLANG_FAILED tc r5 \<or> blob = None"
      "log' = log @ [OpenFile p True, ReadFile p src, LoadModule s (c_str p) (Some m) d1,
                     FindAndCheckEntryPoint m (c_str e) st (Some ep) d2,
                     CreateCompositeComponentType s [m, ep] r3 (Some cp) d3,
                     Link cp r4 (Some lp) d4, PrintReflection lp e,
                     GetEntryPointCode lp 0 0 r5 blob d5]"
  | (size_invalid) src s m d1 ep d2 r3 cp d3 r4 lp d4 r5 spirvData d5 where
      "r = False" "out' = out"
      "msg' = ''Invalid SPIRV size (not multiple of 4 bytes)''"
      "this' = append_diagnostics d5 (append_diagnostics d4 (append_diagnostics d3
                 (assign_diagnostics d2 (assign_diagnostics d1 (this\<lparr>lastDiagnostics := []\<rparr>)))))"
      "session this = Some s" "\<not> SLANG_FAILED tc r3" "\<not> SLANG_FAILED tc r4"
      "\<not> SLANG_FAILED tc r5" "length spirvData mod 4 \<noteq> 0"
      "log' = log @ [OpenFile p True, ReadFile p src, LoadModule s (c_str p) (Some m) d1,
                     FindAndCheckEntryPoint m (c_str e) st (Some ep) d2,
                     CreateCompositeComponentType s [m, ep] r3 (Some cp) d3,
                     Link cp r4 (Some lp) d4, PrintReflection lp e,
                     GetEntryPointCode lp 0 0 r5 (Some spirvData) d5]"
  | (compiled) src s m d1 ep d2 r3 cp d3 r4 lp d4 r5 spirvData d5 where
      "r = True" "out' = words_of_bytes spirvData"
      "msg' = msg"
      "this' = append_diagnostics d5 (append_diagnostics d4 (append_diagnostics d3
                 (assign_diagnostics d2 (assign_diagnostics d1 (this\<lparr>lastDiagnostics := []\<rparr>)))))"
      "session this = Some s" "\<not> SLANG_FAILED tc r3" "\<not> SLANG_FAILED tc r4"
      "\<not> SLANG_FAILED tc r5" "length spirvData mod 4 = 0"
      "log' = log @ [OpenFile p True, ReadFile p src, LoadModule s (c_str p) (Some m) d1,
                     FindAndCheckEntryPoint m (c_str e) st (Some ep) d2,
                     CreateCompositeComponentType s [m, ep] r3 (Some cp) d3,
                     Link cp r4 (Some lp) d4, PrintReflection lp e,
                     GetEntryPointCode lp 0 0 r5 (Some spirvData) d5]"
proof -
  note defs = compileEntryPoint_def Let_def
  let ?l1 = "log @ [OpenFile p True]"
  let ?src = "file_rdbuf tc ?l1 p"
  let ?l2 = "?l1 @ [ReadFile p ?src]"
  show thesis
  proof (cases "file_is_open tc log p")
    case False
    with assms show thesis by (intro open_failed) (auto simp: defs)
  next
    case op: True
    show thesis
    proof (cases "session this")
      case None
      with assms op show thesis by (simp add: defs)
    next
      case s: (Some s)
      obtain m d1 where ld: "loadModule tc ?l2 s (c_str p) = (m, d1)" by fastforce
      let ?l3 = "?l2 @ [LoadModule s (c_str p) m d1]"
      show thesis
      proof (cases m)
        case None
        with assms op s ld show thesis
          by (intro load_failed[of d1 s ?src]) (auto simp: defs)
      next
        case m: (Some mh)
        obtain ep d2 where fe: "findAndCheckEntryPoint tc ?l3 mh (c_str e) st = (ep, d2)" by fastforce
        let ?l4 = "?l3 @ [FindAndCheckEntryPoint mh (c_str e) st ep d2]"
        show thesis
        proof (cases ep)
          case None
          with assms op s ld m fe show thesis
            by (intro entry_failed[of d2 d1 s ?src mh]) (auto simp: defs)
        next
          case ep: (Some eph)
          obtain r3 cp d3 where co: "createCompositeComponentType tc ?l4 s [mh, eph] = (r3, cp, d3)"
            by (metis prod_cases3)
          let ?l5 = "?l4 @ [CreateCompositeComponentType s [mh, eph] r3 cp d3]"
          show thesis
          proof (cases "SLANG_FAILED tc r3")
            case True
            with assms op s ld m fe ep co show thesis
              by (intro compose_failed[of d3 d2 d1 s r3 ?src mh eph cp]) (auto simp: defs)
          next
            case ok3: False
            show thesis
            proof (cases cp)
              case None
              with assms op s ld m fe ep co ok3 show thesis by (simp add: defs)
            next
              case cp: (Some cph)
              obtain r4 lp d4 where li: "link tc ?l5 cph = (r4, lp, d4)"
                by (metis prod_cases3)
              let ?l6 = "?l5 @ [Link cph r4 lp d4]"
              show thesis
              proof (cases "SLANG_FAILED tc r4")
                case True
                with assms op s ld m fe ep co ok3 cp li show thesis
                  by (intro link_failed[of d4 d3 d2 d1 s r3 r4 ?src mh eph cph lp])
                    (auto simp: defs)
              next
                case ok4: False
                show thesis
                proof (cases lp)
                  case None
                  with assms op s ld m fe ep co ok3 cp li ok4 show thesis by (simp add: defs)
                next
                  case lp: (Some lph)
                  let ?l7 = "?l6 @ [PrintReflection lph e]"
                  obtain r5 blob d5 where gc: "getEntryPointCode tc ?l7 lph 0 0 = (r5, blob, d5)"
                    by (metis prod_cases3)
                  note known = op s ld m fe ep co ok3 cp li ok4 lp gc
                  show thesis
                  proof (cases "SLANG_FAILED tc r5 \<or> blob = None")
                    case True
                    with assms known show thesis
                      by (intro code_failed[of d5 d4 d3 d2 d1 s r3 r4 r5 blob ?src mh eph cph lph])
                        (auto simp: defs split: if_splits)
                  next
                    case ok5: False
                    then obtain spirvData where bl: "blob = Some spirvData" by auto
                    show thesis
                    proof (cases "length spirvData mod 4 = 0")
                      case False
                      with assms known ok5 bl show thesis
                        by (intro size_invalid[of d5 d4 d3 d2 d1 s r3 r4 r5 spirvData ?src mh eph cph lph])
                          (auto simp: defs)
                    next
                      case True
                      with assms known ok5 bl show thesis
                        by (intro compiled[of spirvData d5 d4 d3 d2 d1 s r3 r4 r5 ?src mh eph cph lph])
                          (auto simp: defs)
                    qed
                  qed
                qed
              qed
            qed
          qed
        qed
      qed
    qed
  qed
qed

lemma compileEntryPoint_keeps_initialized:
  assumes "compileEntryPoint tc p e st out msg this log = Returns (r, out', msg', this', log')"
  shows "initialized this' = initialized this"
  using assms by (cases rule: compileEntryPoint_Returns) simp_all


lemma compileEntryPoint_False_message:
  assumes "compileEntryPoint tc p e st out msg this log = Returns (False, out', msg', this', log')"
  shows "msg' \<noteq> [] \<and> log' \<noteq> [] \<and>
         names_failing_step tc p e st (getLastDiagnostics this') msg' (last log')"
  using assms
  by (cases rule: compileEntryPoint_Returns) (auto simp: getLastDiagnostics_def c_str_def)




lemma compileVertexFragment_Returns:
  assumes "initialized this"
    and "compileVertexFragment tc p ve fe outV outF msg this log
           = Returns (r, outV', outF', msg', this', log')"
  obtains
    (vertex_failed)
      "r = False" "outF' = outF"
      "compileEntryPoint tc p ve SLANG_STAGE_VERTEX outV msg this log
         = Returns (False, outV', msg', this', log')"
  | (fragment_run) msg1 this1 log1 where
      "compileEntryPoint tc p ve SLANG_STAGE_VERTEX outV msg this log
         = Returns (True, outV', msg1, this1, log1)"
      "compileEntryPoint tc p fe SLANG_STAGE_FRAGMENT outF msg1 this1 log1
         = Returns (r, outF', msg', this', log')"
  using assms
  by (auto simp: compileVertexFragment_def split: outcome.splits if_splits)



subsection \<open>The copied code\<close>

lemma bytes_of_word_of_bytes: "bytes_of_word (word_of_bytes a b c d) = [a, b, c, d]"
  unfolding bytes_of_word_def word_of_bytes_def
  apply simp
  apply (intro conjI; rule bit_word_eqI)
     apply (auto simp: bit_simps dest: bit_imp_le_length)
  done

lemma words_of_bytes_roundtrip:
  "length bs mod 4 = 0 \<Longrightarrow>
     bytes_of_words (words_of_bytes bs) = bs \<and> length (words_of_bytes bs) = length bs div 4"
proof (induction bs rule: words_of_bytes.induct)
  case (1 a b c d rest)
  then show ?case
    by (simp add: bytes_of_words_def bytes_of_word_of_bytes)
qed (simp_all add: bytes_of_words_def)

subsection \<open>Sample runs\<close>

lemmas sample_defs =
  example_toolchain_def example_compiler_def toolchain_without_file_def
  toolchain_without_entry_def toolchain_vertex_warning_def toolchain_two_warnings_def
  toolchain_load_link_warnings_def toolchain_odd_blob_def toolchain_without_session_def
  example_log_def SlangCompiler_new_def
  compileEntryPoint_def compileToSPIRV_def compileVertexFragment_def initialize_def
  assign_diagnostics_def append_diagnostics_def newline_def isInitialized_def
  getLastDiagnostics_def c_str_def


lemma run_example:
  "compileToSPIRV example_toolchain ''cube.slang'' ''cubeVertex'' SLANG_STAGE_VERTEX [] ''''
       example_compiler []
     = Returns (True, words_of_bytes [3, 2, 35, 7], '''', example_compiler, example_log ''cube.slang'' ''cubeVertex'' SLANG_STAGE_VERTEX)"
  by (simp add: sample_defs)


lemma run_without_file:
  "compileToSPIRV toolchain_without_file ''cube.slang'' ''cubeVertex'' SLANG_STAGE_VERTEX [] ''''
       example_compiler []
     = Returns (False, [], ''Failed to open shader file: cube.slang'', example_compiler,
         [OpenFile ''cube.slang'' False])"
  by (simp add: sample_defs)

lemma run_without_entry:
  "compileVertexFragment toolchain_without_entry ''cube.slang'' ''cubeVertex'' ''cubeFragment''
       [1] [2] ''old'' example_compiler []
     = Returns (False, [1], [2],
         ''Failed to find entry point: cubeVertex in cube.slang'' @ newline
           @ ''error: entry point not found'',
         example_compiler\<lparr>lastDiagnostics := ''error: entry point not found''\<rparr>,
         [OpenFile ''cube.slang'' True, ReadFile ''cube.slang'' ''shader text'',
          LoadModule 2 ''cube.slang'' (Some 3) None,
          FindAndCheckEntryPoint 3 ''cubeVertex'' SLANG_STAGE_VERTEX None
            (Some ''error: entry point not found'')])"
  by (simp add: sample_defs)


lemma run_odd_blob:
  "compileToSPIRV toolchain_odd_blob ''cube.slang'' ''cubeVertex'' SLANG_STAGE_VERTEX [1] ''''
       example_compiler []
     = Returns (False, [1], ''Invalid SPIRV size (not multiple of 4 bytes)'', example_compiler,
         [OpenFile ''cube.slang'' True, ReadFile ''cube.slang'' ''shader text'',
          LoadModule 2 ''cube.slang'' (Some 3) None,
          FindAndCheckEntryPoint 3 ''cubeVertex'' SLANG_STAGE_VERTEX (Some 4) None,
          CreateCompositeComponentType 2 [3, 4] 0 (Some 5) None,
          Link 5 0 (Some 6) None, PrintReflection 6 ''cubeVertex'',
          GetEntryPointCode 6 0 0 0 (Some [3, 2, 35]) None])"
  by (simp add: sample_defs)

lemma run_without_session:
  "initialize toolchain_without_session SLANG_SPIRV SlangCompiler_new []
     = Returns (False,
         \<lparr>globalSession = Some 1, session = None, initialized = False,
            lastDiagnostics = ''Failed to create Slang session''\<rparr>,
         [CreateGlobalSession 0 (Some 1), FindProfile 1 ''spirv_1_5'' 7,
          CreateSession 1 \<lparr>targets = [\<lparr>format = SLANG_SPIRV, profile = 7\<rparr>], targetCount = 1\<rparr>
            (- 1) None])"
  by (simp add: sample_defs)

text \<open>
  Line 106 clears the diagnostics string at the start of every stage: a warning of the
  vertex stage is gone when \<open>compileVertexFragment\<close> returns.
\<close>

lemma fragment_stage_clears_vertex_diagnostics:
  "compileVertexFragment toolchain_vertex_warning ''cube.slang'' ''cubeVertex'' ''cubeFragment''
       [] [] '''' example_compiler []
     = Returns (True, words_of_bytes [3, 2, 35, 7], words_of_bytes [3, 2, 35, 7], '''', example_compiler, vertex_warning_log) \<and>
   concat (map event_diagnostics vertex_warning_log) = ''warning: unused parameter'' \<and>
   getLastDiagnostics example_compiler = ''''"
  by (simp add: sample_defs vertex_warning_log_def blob_text_def)

text \<open>
  The assignment of line 148 replaces what line 129 stored: when the module load and the
  entry-point lookup both produce diagnostics, those of the load are gone.
\<close>

lemma entry_point_diagnostics_replace_those_of_load:
  "compileToSPIRV toolchain_two_warnings ''cube.slang'' ''cubeVertex'' SLANG_STAGE_VERTEX [] ''''
       example_compiler []
     = Returns (True, words_of_bytes [3, 2, 35, 7], '''',
         example_compiler\<lparr>lastDiagnostics := ''warning B; ''\<rparr>,
         [OpenFile ''cube.slang'' True, ReadFile ''cube.slang'' ''shader text'',
          LoadModule 2 ''cube.slang'' (Some 3) (Some ''warning A; ''),
          FindAndCheckEntryPoint 3 ''cubeVertex'' SLANG_STAGE_VERTEX (Some 4)
            (Some ''warning B; ''),
          CreateCompositeComponentType 2 [3, 4] 0 (Some 5) None,
          Link 5 0 (Some 6) None, PrintReflection 6 ''cubeVertex'',
          GetEntryPointCode 6 0 0 0 (Some [3, 2, 35, 7]) None])"
  by (simp add: sample_defs)




section \<open>The claims about the compiler object\<close>

subsection \<open>The steps of a compilation\<close>




subsection \<open>The diagnostics string\<close>




subsection \<open>The size of the code\<close>

text \<open>
  C3. Whenever \<open>compileToSPIRV\<close> (or \<open>compileEntryPoint\<close>, which is each stage of
  \<open>compileVertexFragment\<close>) returns true, the last call it made is the code extraction,
  the blob received there has a size that is a multiple of 4, and the output vector has
  size/4 words whose memory is the blob, byte for byte. Whenever the extraction
  succeeded with a blob whose size is not a multiple of 4, the call returns false with
  the message "Invalid SPIRV size (not multiple of 4 bytes)".
\<close>

theorem spirv_size_multiple_of_four:
  assumes "compileToSPIRV tc p e st out msg this log = Returns (r, out', msg', this', log') \<or>
           compileEntryPoint tc p e st out msg this log = Returns (r, out', msg', this', log')"
  shows "\<exists>evs. log' = log @ evs \<and>
     (r \<longrightarrow> (\<exists>lp res blob d.
        evs \<noteq> [] \<and> last evs = GetEntryPointCode lp 0 0 res (Some blob) d \<and>
        length blob mod 4 = 0 \<and> length out' = length blob div 4 \<and>
        out' = words_of_bytes blob \<and> bytes_of_words out' = blob)) \<and>
     (\<forall>lp i j res blob d.
        GetEntryPointCode lp i j res (Some blob) d \<in> set evs \<and> \<not> SLANG_FAILED tc res \<and>
        length blob mod 4 \<noteq> 0
          \<longrightarrow> \<not> r \<and> msg' = ''Invalid SPIRV size (not multiple of 4 bytes)'')"
proof (cases "initialized this \<or>
    compileEntryPoint tc p e st out msg this log = Returns (r, out', msg', this', log')")
  case False
  with assms have "r = False" "log' = log"
    by (simp_all add: compileToSPIRV_def)
  then show ?thesis by simp
next
  case True
  with assms have
    "compileEntryPoint tc p e st out msg this log = Returns (r, out', msg', this', log')"
    by (auto simp: compileToSPIRV_def)
  then show ?thesis
  proof (cases rule: compileEntryPoint_Returns)
    case (compiled src s m d1 ep d2 r3 cp d3 r4 lp d4 r5 spirvData d5)
    then show ?thesis
      using words_of_bytes_roundtrip [of spirvData] by auto
  qed auto
qed

theorem spirv_size_multiple_of_four_witness:
  "(compileToSPIRV example_toolchain ''cube.slang'' ''cubeVertex'' SLANG_STAGE_VERTEX [] ''''
       example_compiler []
     = Returns (True, words_of_bytes [3, 2, 35, 7], '''', example_compiler, example_log ''cube.slang'' ''cubeVertex'' SLANG_STAGE_VERTEX)) \<and>
   (\<exists>evs. (example_log ''cube.slang'' ''cubeVertex'' SLANG_STAGE_VERTEX) = ([]::event list) @ evs \<and>
     (True \<longrightarrow> (\<exists>lp res blob d.
        evs \<noteq> [] \<and> last evs = GetEntryPointCode lp 0 0 res (Some blob) d \<and>
        length blob mod 4 = 0 \<and> length (words_of_bytes [3, 2, 35, 7]) = length blob div 4 \<and>
        (words_of_bytes [3, 2, 35, 7]) = words_of_bytes blob \<and> bytes_of_words (words_of_bytes [3, 2, 35, 7]) = blob)) \<and>
     (\<forall>lp i j res blob d.
        GetEntryPointCode lp i j res (Some blob) d \<in> set evs \<and> \<not> SLANG_FAILED example_toolchain res \<and>
        length blob mod 4 \<noteq> 0
          \<longrightarrow> \<not> True \<and> (''''::string) = ''Invalid SPIRV size (not multiple of 4 bytes)'')) \<and>
   (compileToSPIRV toolchain_odd_blob ''cube.slang'' ''cubeVertex'' SLANG_STAGE_VERTEX [1] ''''
       example_compiler []
     = Returns (False, [1], ''Invalid SPIRV size (not multiple of 4 bytes)'', example_compiler,
         [OpenFile ''cube.slang'' True, ReadFile ''cube.slang'' ''shader text'',
          LoadModule 2 ''cube.slang'' (Some 3) None,
          FindAndCheckEntryPoint 3 ''cubeVertex'' SLANG_STAGE_VERTEX (Some 4) None,
          CreateCompositeComponentType 2 [3, 4] 0 (Some 5) None,
          Link 5 0 (Some 6) None, PrintReflection 6 ''cubeVertex'',
          GetEntryPointCode 6 0 0 0 (Some [3, 2, 35]) None])) \<and>
   (\<exists>evs. [OpenFile ''cube.slang'' True, ReadFile ''cube.slang'' ''shader text'',
          LoadModule 2 ''cube.slang'' (Some 3) None,
          FindAndCheckEntryPoint 3 ''cubeVertex'' SLANG_STAGE_VERTEX (Some 4) None,
          CreateCompositeComponentType 2 [3, 4] 0 (Some 5) None,
          Link 5 0 (Some 6) None, PrintReflection 6 ''cubeVertex'',
          GetEntryPointCode 6 0 0 0 (Some [3, 2, 35]) None] = ([]::event list) @ evs \<and>
     (False \<longrightarrow> (\<exists>lp res blob d.
        evs \<noteq> [] \<and> last evs = GetEntryPointCode lp 0 0 res (Some blob) d \<and>
        length blob mod 4 = 0 \<and> length ([1]::32 word list) = length blob div 4 \<and>
        ([1]::32 word list) = words_of_bytes blob \<and> bytes_of_words ([1]::32 word list) = blob)) \<and>
     (\<forall>lp i j res blob d.
        GetEntryPointCode lp i j res (Some blob) d \<in> set evs \<and> \<not> SLANG_FAILED toolchain_odd_blob res \<and>
        length blob mod 4 \<noteq> 0
          \<longrightarrow> \<not> False \<and> ''Invalid SPIRV size (not multiple of 4 bytes)'' = ''Invalid SPIRV size (not multiple of 4 bytes)''))"
  by (intro conjI run_example run_odd_blob
        spirv_size_multiple_of_four [OF disjI1 [OF run_example]]
        spirv_size_multiple_of_four [OF disjI1 [OF run_odd_blob]])

subsection \<open>The outputs of \<open>compileVertexFragment\<close>\<close>



subsection \<open>The two stages of \<open>compileVertexFragment\<close>\<close>



subsection \<open>Calls before initialization\<close>

text \<open>
  C8. While the flag \<open>initialized\<close> is unset (it is unset in a new object and stays so
  when \<open>initialize\<close> returns false, see the lemmas above), \<open>compileToSPIRV\<close> and
  \<open>compileVertexFragment\<close> return false, set the error message to
  "Compiler not initialized" and leave the output buffers, the object and the
  environment as they were.
\<close>

theorem compile_before_initialize:
  "\<not> isInitialized this \<Longrightarrow>
     compileToSPIRV tc shaderPath entryPoint stage outSpirv outErrorMsg this log
       = Returns (False, outSpirv, ''Compiler not initialized'', this, log) \<and>
     compileVertexFragment tc shaderPath vertexEntry fragmentEntry outVertexSpirv
         outFragmentSpirv outErrorMsg this log
       = Returns (False, outVertexSpirv, outFragmentSpirv, ''Compiler not initialized'', this, log)"
  by (simp add: compileToSPIRV_def compileVertexFragment_def isInitialized_def)

theorem compile_before_initialize_witness:
  "\<not> isInitialized SlangCompiler_new \<and>
   compileToSPIRV example_toolchain ''cube.slang'' ''cubeVertex'' SLANG_STAGE_VERTEX [1, 2] ''old''
       SlangCompiler_new []
     = Returns (False, [1, 2], ''Compiler not initialized'', SlangCompiler_new, []) \<and>
   compileVertexFragment example_toolchain ''cube.slang'' ''cubeVertex'' ''cubeFragment'' [1] [2]
       ''old'' SlangCompiler_new []
     = Returns (False, [1], [2], ''Compiler not initialized'', SlangCompiler_new, [])"
  by (rule conjI [OF SlangCompiler_new_not_initialized
        compile_before_initialize [OF SlangCompiler_new_not_initialized]])

subsection \<open>Repeated initialization\<close>

text \<open>
  C9. On an object whose flag \<open>initialized\<close> is set (which is the case as soon as
  \<open>initialize\<close> has returned true), \<open>initialize\<close> with any target and in any
  environment returns true, leaves the object as it is and makes no call (the log is
  unchanged: no global session and no session is created). The compile functions keep
  the flag, so \<open>isInitialized\<close> stays true.
\<close>

theorem initialize_idempotent:
  "initialize tc0 target0 this0 log0 = Returns (True, this, log) \<Longrightarrow>
     isInitialized this \<and>
     (\<forall>tc target log. initialize tc target this log = Returns (True, this, log)) \<and>
     (\<forall>tc p e st out msg log r out' msg' this' log'.
        compileToSPIRV tc p e st out msg this log = Returns (r, out', msg', this', log')
          \<longrightarrow> isInitialized this' \<and>
              (\<forall>tc target log. initialize tc target this' log = Returns (True, this', log))) \<and>
     (\<forall>tc p ve fe outV outF msg log r outV' outF' msg' this' log'.
        compileVertexFragment tc p ve fe outV outF msg this log
            = Returns (r, outV', outF', msg', this', log')
          \<longrightarrow> isInitialized this' \<and>
              (\<forall>tc target log. initialize tc target this' log = Returns (True, this', log)))"
proof -
  assume "initialize tc0 target0 this0 log0 = Returns (True, this, log)"
  then have init: "initialized this"
    using initialize_Returns_True by (simp add: isInitialized_def)
  have again: "initialize tc target c log = Returns (True, c, log)" if "initialized c"
    for tc target c log
    using that by (simp add: initialize_def)
  have one: "initialized this'"
    if "compileToSPIRV tc p e st out msg this log = Returns (r, out', msg', this', log')"
    for tc p e st out msg log r out' msg' this' log'
    using that init compileEntryPoint_keeps_initialized
    by (simp add: compileToSPIRV_def)
  have two: "initialized this'"
    if "compileVertexFragment tc p ve fe outV outF msg this log
          = Returns (r, outV', outF', msg', this', log')"
    for tc p ve fe outV outF msg log r outV' outF' msg' this' log'
    using that init
    by (auto simp: compileVertexFragment_def split: outcome.splits if_splits
          dest!: compileEntryPoint_keeps_initialized)
  show ?thesis
    unfolding isInitialized_def
    by (intro conjI allI impI) (auto intro: init again one two)
qed

theorem initialize_idempotent_witness:
  "initialize example_toolchain SLANG_SPIRV SlangCompiler_new []
     = Returns (True, example_compiler,
         [CreateGlobalSession 0 (Some 1), FindProfile 1 ''spirv_1_5'' 7,
          CreateSession 1 \<lparr>targets = [\<lparr>format = SLANG_SPIRV, profile = 7\<rparr>], targetCount = 1\<rparr>
            0 (Some 2)]) \<and>
   isInitialized example_compiler \<and>
   initialize example_toolchain (SLANG_TARGET_other 3) example_compiler
       [CreateGlobalSession 0 (Some 1)]
     = Returns (True, example_compiler, [CreateGlobalSession 0 (Some 1)]) \<and>
   compileVertexFragment toolchain_without_entry ''cube.slang'' ''cubeVertex'' ''cubeFragment''
       [1] [2] ''old'' example_compiler []
     = Returns (False, [1], [2],
         ''Failed to find entry point: cubeVertex in cube.slang'' @ newline
           @ ''error: entry point not found'',
         example_compiler\<lparr>lastDiagnostics := ''error: entry point not found''\<rparr>,
         [OpenFile ''cube.slang'' True, ReadFile ''cube.slang'' ''shader text'',
          LoadModule 2 ''cube.slang'' (Some 3) None,
          FindAndCheckEntryPoint 3 ''cubeVertex'' SLANG_STAGE_VERTEX None
            (Some ''error: entry point not found'')]) \<and>
   isInitialized (example_compiler\<lparr>lastDiagnostics := ''error: entry point not found''\<rparr>) \<and>
   initialize toolchain_without_file SLANG_SPIRV
       (example_compiler\<lparr>lastDiagnostics := ''error: entry point not found''\<rparr>) []
     = Returns (True, example_compiler\<lparr>lastDiagnostics := ''error: entry point not found''\<rparr>, [])"
proof -
  have h: "initialize example_toolchain SLANG_SPIRV SlangCompiler_new []
     = Returns (True, example_compiler,
         [CreateGlobalSession 0 (Some 1), FindProfile 1 ''spirv_1_5'' 7,
          CreateSession 1 \<lparr>targets = [\<lparr>format = SLANG_SPIRV, profile = 7\<rparr>], targetCount = 1\<rparr>
            0 (Some 2)])"
    by (simp add: initialize_def example_toolchain_def SlangCompiler_new_def
          example_compiler_def)
  note again = initialize_idempotent [OF h]
  from again have a: "isInitialized example_compiler"
    by (rule conjunct1)
  from again have b: "\<forall>tc target log.
      initialize tc target example_compiler log = Returns (True, example_compiler, log)"
    by (rule conjunct2 [THEN conjunct1])
  note c = again [THEN conjunct2, THEN conjunct2, THEN conjunct2, rule_format,
    OF run_without_entry]
  show ?thesis
    by (intro conjI h a b [rule_format] run_without_entry c [THEN conjunct1]
          c [THEN conjunct2, rule_format])
qed

subsection \<open>Messages of failing calls\<close>

text \<open>
  C10. When \<open>initialize\<close> returns false, \<open>lastDiagnostics\<close> is the message of the call
  that failed, the last of the log. When \<open>compileToSPIRV\<close> or \<open>compileVertexFragment\<close>
  returns false, the error message is not empty: it is "Compiler not initialized" on an
  object that is not initialized, and otherwise the message that the source writes for
  the step that the log ends with, which is a step that failed.
\<close>

theorem failure_has_message:
  "(initialize tc target this log = Returns (False, this', log') \<longrightarrow>
      (\<exists>r gs. log' = log @ [CreateGlobalSession r gs] \<and> SLANG_FAILED tc r \<and>
         getLastDiagnostics this' = ''Failed to create Slang global session'') \<or>
      (\<exists>evs g desc r s. log' = log @ evs @ [CreateSession g desc r s] \<and> SLANG_FAILED tc r \<and>
         getLastDiagnostics this' = ''Failed to create Slang session'')) \<and>
   (compileToSPIRV tc p e st out msg this log = Returns (False, out', msg', this', log') \<longrightarrow>
      msg' \<noteq> [] \<and>
      (if isInitialized this
       then log' \<noteq> [] \<and> names_failing_step tc p e st (getLastDiagnostics this') msg' (last log')
       else msg' = ''Compiler not initialized'')) \<and>
   (compileVertexFragment tc p ve fe outV outF msg this log
        = Returns (False, outV', outF', msg', this', log') \<longrightarrow>
      msg' \<noteq> [] \<and>
      (if isInitialized this
       then log' \<noteq> [] \<and>
            (names_failing_step tc p ve SLANG_STAGE_VERTEX (getLastDiagnostics this') msg' (last log') \<or>
             names_failing_step tc p fe SLANG_STAGE_FRAGMENT (getLastDiagnostics this') msg' (last log'))
       else msg' = ''Compiler not initialized''))"
proof (intro conjI impI)
  assume "initialize tc target this log = Returns (False, this', log')"
  then show "(\<exists>r gs. log' = log @ [CreateGlobalSession r gs] \<and> SLANG_FAILED tc r \<and>
         getLastDiagnostics this' = ''Failed to create Slang global session'') \<or>
      (\<exists>evs g desc r s. log' = log @ evs @ [CreateSession g desc r s] \<and> SLANG_FAILED tc r \<and>
         getLastDiagnostics this' = ''Failed to create Slang session'')"
    by (auto simp: initialize_def Let_def getLastDiagnostics_def c_str_def
          split: if_splits prod.splits option.splits)
next
  assume a: "compileToSPIRV tc p e st out msg this log = Returns (False, out', msg', this', log')"
  then show "msg' \<noteq> []"
    by (auto simp: compileToSPIRV_def split: if_splits dest: compileEntryPoint_False_message)
  from a show "if isInitialized this
       then log' \<noteq> [] \<and> names_failing_step tc p e st (getLastDiagnostics this') msg' (last log')
       else msg' = ''Compiler not initialized''"
    by (auto simp: compileToSPIRV_def isInitialized_def split: if_splits
          dest: compileEntryPoint_False_message)
next
  assume a: "compileVertexFragment tc p ve fe outV outF msg this log
        = Returns (False, outV', outF', msg', this', log')"
  have b: "msg' \<noteq> [] \<and> log' \<noteq> [] \<and>
      (names_failing_step tc p ve SLANG_STAGE_VERTEX (getLastDiagnostics this') msg' (last log') \<or>
       names_failing_step tc p fe SLANG_STAGE_FRAGMENT (getLastDiagnostics this') msg' (last log'))"
    if "initialized this"
    using that a
  proof (cases rule: compileVertexFragment_Returns)
    case vertex_failed
    then show ?thesis using compileEntryPoint_False_message by blast
  next
    case (fragment_run msg1 this1 log1)
    then show ?thesis using compileEntryPoint_False_message by blast
  qed
  from a b show "msg' \<noteq> []"
    by (cases "initialized this") (auto simp: compileVertexFragment_def)
  from a b show "if isInitialized this
       then log' \<noteq> [] \<and>
            (names_failing_step tc p ve SLANG_STAGE_VERTEX (getLastDiagnostics this') msg' (last log') \<or>
             names_failing_step tc p fe SLANG_STAGE_FRAGMENT (getLastDiagnostics this') msg' (last log'))
       else msg' = ''Compiler not initialized''"
    by (cases "initialized this") (auto simp: compileVertexFragment_def isInitialized_def)
qed

theorem failure_has_message_witness:
  "(initialize toolchain_without_session SLANG_SPIRV SlangCompiler_new []
     = Returns (False,
         \<lparr>globalSession = Some 1, session = None, initialized = False,
            lastDiagnostics = ''Failed to create Slang session''\<rparr>,
         [CreateGlobalSession 0 (Some 1), FindProfile 1 ''spirv_1_5'' 7,
          CreateSession 1 \<lparr>targets = [\<lparr>format = SLANG_SPIRV, profile = 7\<rparr>], targetCount = 1\<rparr>
            (- 1) None])) \<and>
   ((\<exists>r gs. [CreateGlobalSession 0 (Some 1), FindProfile 1 ''spirv_1_5'' 7,
          CreateSession 1 \<lparr>targets = [\<lparr>format = SLANG_SPIRV, profile = 7\<rparr>], targetCount = 1\<rparr>
            (- 1) None] = ([]::event list) @ [CreateGlobalSession r gs] \<and> SLANG_FAILED toolchain_without_session r \<and>
         getLastDiagnostics (\<lparr>globalSession = Some 1, session = None, initialized = False,
            lastDiagnostics = ''Failed to create Slang session''\<rparr>) = ''Failed to create Slang global session'') \<or>
      (\<exists>evs g desc r s. [CreateGlobalSession 0 (Some 1), FindProfile 1 ''spirv_1_5'' 7,
          CreateSession 1 \<lparr>targets = [\<lparr>format = SLANG_SPIRV, profile = 7\<rparr>], targetCount = 1\<rparr>
            (- 1) None] = ([]::event list) @ evs @ [CreateSession g desc r s] \<and> SLANG_FAILED toolchain_without_session r \<and>
         getLastDiagnostics (\<lparr>globalSession = Some 1, session = None, initialized = False,
            lastDiagnostics = ''Failed to create Slang session''\<rparr>) = ''Failed to create Slang session'')) \<and>
   (compileToSPIRV toolchain_without_file ''cube.slang'' ''cubeVertex'' SLANG_STAGE_VERTEX [] ''''
       example_compiler []
     = Returns (False, [], ''Failed to open shader file: cube.slang'', example_compiler,
         [OpenFile ''cube.slang'' False])) \<and>
   (''Failed to open shader file: cube.slang'' \<noteq> [] \<and>
      (if isInitialized example_compiler
       then [OpenFile ''cube.slang'' False] \<noteq> [] \<and> names_failing_step toolchain_without_file ''cube.slang'' ''cubeVertex'' SLANG_STAGE_VERTEX (getLastDiagnostics example_compiler) ''Failed to open shader file: cube.slang'' (last [OpenFile ''cube.slang'' False])
       else ''Failed to open shader file: cube.slang'' = ''Compiler not initialized'')) \<and>
   (compileVertexFragment toolchain_without_entry ''cube.slang'' ''cubeVertex'' ''cubeFragment''
       [1] [2] ''old'' example_compiler []
     = Returns (False, [1], [2],
         ''Failed to find entry point: cubeVertex in cube.slang'' @ newline
           @ ''error: entry point not found'',
         example_compiler\<lparr>lastDiagnostics := ''error: entry point not found''\<rparr>,
         [OpenFile ''cube.slang'' True, ReadFile ''cube.slang'' ''shader text'',
          LoadModule 2 ''cube.slang'' (Some 3) None,
          FindAndCheckEntryPoint 3 ''cubeVertex'' SLANG_STAGE_VERTEX None
            (Some ''error: entry point not found'')])) \<and>
   ((''Failed to find entry point: cubeVertex in cube.slang'' @ newline
           @ ''error: entry point not found'') \<noteq> [] \<and>
      (if isInitialized example_compiler
       then [OpenFile ''cube.slang'' True, ReadFile ''cube.slang'' ''shader text'',
          LoadModule 2 ''cube.slang'' (Some 3) None,
          FindAndCheckEntryPoint 3 ''cubeVertex'' SLANG_STAGE_VERTEX None
            (Some ''error: entry point not found'')] \<noteq> [] \<and>
            (names_failing_step toolchain_without_entry ''cube.slang'' ''cubeVertex'' SLANG_STAGE_VERTEX (getLastDiagnostics (example_compiler\<lparr>lastDiagnostics := ''error: entry point not found''\<rparr>)) (''Failed to find entry point: cubeVertex in cube.slang'' @ newline
           @ ''error: entry point not found'') (last [OpenFile ''cube.slang'' True, ReadFile ''cube.slang'' ''shader text'',
          LoadModule 2 ''cube.slang'' (Some 3) None,
          FindAndCheckEntryPoint 3 ''cubeVertex'' SLANG_STAGE_VERTEX None
            (Some ''error: entry point not found'')]) \<or>
             names_failing_step toolchain_without_entry ''cube.slang'' ''cubeFragment'' SLANG_STAGE_FRAGMENT (getLastDiagnostics (example_compiler\<lparr>lastDiagnostics := ''error: entry point not found''\<rparr>)) (''Failed to find entry point: cubeVertex in cube.slang'' @ newline
           @ ''error: entry point not found'') (last [OpenFile ''cube.slang'' True, ReadFile ''cube.slang'' ''shader text'',
          LoadModule 2 ''cube.slang'' (Some 3) None,
          FindAndCheckEntryPoint 3 ''cubeVertex'' SLANG_STAGE_VERTEX None
            (Some ''error: entry point not found'')]))
       else (''Failed to find entry point: cubeVertex in cube.slang'' @ newline
           @ ''error: entry point not found'') = ''Compiler not initialized''))"
proof -
  have a: "(\<exists>r gs. [CreateGlobalSession 0 (Some 1), FindProfile 1 ''spirv_1_5'' 7,
          CreateSession 1 \<lparr>targets = [\<lparr>format = SLANG_SPIRV, profile = 7\<rparr>], targetCount = 1\<rparr>
            (- 1) None] = ([]::event list) @ [CreateGlobalSession r gs] \<and> SLANG_FAILED toolchain_without_session r \<and>
         getLastDiagnostics (\<lparr>globalSession = Some 1, session = None, initialized = False,
            lastDiagnostics = ''Failed to create Slang session''\<rparr>) = ''Failed to create Slang global session'') \<or>
      (\<exists>evs g desc r s. [CreateGlobalSession 0 (Some 1), FindProfile 1 ''spirv_1_5'' 7,
          CreateSession 1 \<lparr>targets = [\<lparr>format = SLANG_SPIRV, profile = 7\<rparr>], targetCount = 1\<rparr>
            (- 1) None] = ([]::event list) @ evs @ [CreateSession g desc r s] \<and> SLANG_FAILED toolchain_without_session r \<and>
         getLastDiagnostics (\<lparr>globalSession = Some 1, session = None, initialized = False,
            lastDiagnostics = ''Failed to create Slang session''\<rparr>) = ''Failed to create Slang session'')"
    by (rule failure_has_message [THEN conjunct1, THEN mp, OF run_without_session])
  have b: "''Failed to open shader file: cube.slang'' \<noteq> [] \<and>
      (if isInitialized example_compiler
       then [OpenFile ''cube.slang'' False] \<noteq> [] \<and> names_failing_step toolchain_without_file ''cube.slang'' ''cubeVertex'' SLANG_STAGE_VERTEX (getLastDiagnostics example_compiler) ''Failed to open shader file: cube.slang'' (last [OpenFile ''cube.slang'' False])
       else ''Failed to open shader file: cube.slang'' = ''Compiler not initialized'')"
    by (rule failure_has_message [THEN conjunct2, THEN conjunct1, THEN mp, OF run_without_file])
  have c: "(''Failed to find entry point: cubeVertex in cube.slang'' @ newline
           @ ''error: entry point not found'') \<noteq> [] \<and>
      (if isInitialized example_compiler
       then [OpenFile ''cube.slang'' True, ReadFile ''cube.slang'' ''shader text'',
          LoadModule 2 ''cube.slang'' (Some 3) None,
          FindAndCheckEntryPoint 3 ''cubeVertex'' SLANG_STAGE_VERTEX None
            (Some ''error: entry point not found'')] \<noteq> [] \<and>
            (names_failing_step toolchain_without_entry ''cube.slang'' ''cubeVertex'' SLANG_STAGE_VERTEX (getLastDiagnostics (example_compiler\<lparr>lastDiagnostics := ''error: entry point not found''\<rparr>)) (''Failed to find entry point: cubeVertex in cube.slang'' @ newline
           @ ''error: entry point not found'') (last [OpenFile ''cube.slang'' True, ReadFile ''cube.slang'' ''shader text'',
          LoadModule 2 ''cube.slang'' (Some 3) None,
          FindAndCheckEntryPoint 3 ''cubeVertex'' SLANG_STAGE_VERTEX None
            (Some ''error: entry point not found'')]) \<or>
             names_failing_step toolchain_without_entry ''cube.slang'' ''cubeFragment'' SLANG_STAGE_FRAGMENT (getLastDiagnostics (example_compiler\<lparr>lastDiagnostics := ''error: entry point not found''\<rparr>)) (''Failed to find entry point: cubeVertex in cube.slang'' @ newline
           @ ''error: entry point not found'') (last [OpenFile ''cube.slang'' True, ReadFile ''cube.slang'' ''shader text'',
          LoadModule 2 ''cube.slang'' (Some 3) None,
          FindAndCheckEntryPoint 3 ''cubeVertex'' SLANG_STAGE_VERTEX None
            (Some ''error: entry point not found'')]))
       else (''Failed to find entry point: cubeVertex in cube.slang'' @ newline
           @ ''error: entry point not found'') = ''Compiler not initialized'')"
    by (rule failure_has_message [THEN conjunct2, THEN conjunct2, THEN mp, OF run_without_entry])
  show ?thesis
    by (intro conjI run_without_session run_without_file run_without_entry a b c)
qed

section \<open>The claims about the application\<close>

subsection \<open>Failures during initialization\<close>



subsection \<open>The frame\<close>



end
